theory Spec2Isabelle
  imports Main "HOL-Library.Char_ord" "HOL-Library.List_Lexorder" "HOL-Library.Multiset"
begin

section \<open>Log interpretation of the console: normalise, classify, group, sort\<close>

text \<open>
  The functions embedded here are \<^verbatim>\<open>sortLogs\<close>, \<^verbatim>\<open>parseLogMetadata\<close> with its matchers,
  and \<^verbatim>\<open>groupLogs\<close> of the console's Lambda function data module (the module that exports
  \<^verbatim>\<open>useFunctionQuery\<close>, \<^verbatim>\<open>useFunctionInvoke\<close> and \<^verbatim>\<open>useLogsQuery\<close>), chained as
  \<^verbatim>\<open>useLogsQuery\<close> chains them.

  Conventions of the embedding.
  \<^item> A JavaScript string is a \<open>string\<close>: one \<open>char\<close> per code unit, so the model covers
    messages whose code units are below 256. Comparison of strings is the lexicographic
    order on code units, which is what \<^verbatim>\<open><\<close> on two JavaScript strings computes.
  \<^item> An optional property is an \<open>option\<close>; \<open>None\<close> is \<^verbatim>\<open>undefined\<close>.
  \<^item> A timestamp is an \<open>int\<close> (epoch milliseconds).
  \<^item> The objects are mutated in place by the source; the model passes them along.
\<close>

subsection \<open>The string primitives of the language\<close>

text \<open>White space as \<^verbatim>\<open>String.prototype.trim\<close> and the regular expression class \<^verbatim>\<open>\s\<close>
  see it, among the code units below 256: TAB, LF, VT, FF, CR, SPACE, NBSP.\<close>

definition isWhiteSpace :: "char \<Rightarrow> bool" where
  "isWhiteSpace c \<longleftrightarrow>
     c = CHR 0x09 \<or> c = CHR 0x0A \<or> c = CHR 0x0B \<or> c = CHR 0x0C \<or> c = CHR 0x0D \<or>
     c = CHR 0x20 \<or> c = CHR 0xA0"

definition js_trim :: "string \<Rightarrow> string" where
  "js_trim s = rev (dropWhile isWhiteSpace (rev (dropWhile isWhiteSpace s)))"

definition js_startsWith :: "string \<Rightarrow> string \<Rightarrow> bool" where
  "js_startsWith s p \<longleftrightarrow> take (length p) s = p"

text \<open>\<^verbatim>\<open>s.substr(start, len)\<close> for a start inside or past the string.\<close>

definition js_substr :: "string \<Rightarrow> nat \<Rightarrow> nat \<Rightarrow> string" where
  "js_substr s start len = take len (drop start s)"

text \<open>\<^verbatim>\<open>s.split(sep)\<close> for a separator of one character: never the empty array, the
  empty string gives one empty token.\<close>

fun js_split :: "char \<Rightarrow> string \<Rightarrow> string list" where
  "js_split sep [] = [[]]"
| "js_split sep (c # cs) =
     (if c = sep then [] # js_split sep cs
      else (case js_split sep cs of
              [] \<Rightarrow> [[c]]
            | t # ts \<Rightarrow> (c # t) # ts))"

fun js_join :: "string \<Rightarrow> string list \<Rightarrow> string" where
  "js_join sep [] = []"
| "js_join sep [x] = x"
| "js_join sep (x # y # ys) = x @ sep @ js_join sep (y # ys)"

text \<open>\<^verbatim>\<open>xs[i]\<close>: \<^verbatim>\<open>undefined\<close> out of range.\<close>

definition js_index :: "'a list \<Rightarrow> nat \<Rightarrow> 'a option" where
  "js_index xs i = (if i < length xs then Some (xs ! i) else None)"

text \<open>\<^verbatim>\<open>a || b\<close> on an optional string (the empty string is falsy) and on an optional
  number (zero is falsy).\<close>

definition or_string :: "string option \<Rightarrow> string option \<Rightarrow> string option" where
  "or_string a b = (case a of None \<Rightarrow> b | Some s \<Rightarrow> if s = [] then b else Some s)"

definition or_number :: "int option \<Rightarrow> int \<Rightarrow> int option" where
  "or_number a b = (case a of None \<Rightarrow> Some b | Some n \<Rightarrow> if n = 0 then Some b else Some n)"

subsection \<open>The regular expressions of the matchers\<close>

definition isDigit :: "char \<Rightarrow> bool" where
  "isDigit c \<longleftrightarrow> c \<in> set ''0123456789''"

definition isHexOrDash :: "char \<Rightarrow> bool" where
  "isHexOrDash c \<longleftrightarrow> c \<in> set ''0123456789abcdefABCDEF-''"

text \<open>An anchored pattern without repetition is a list of positions, each a digit class
  or a literal character; a string matches when it has the pattern's length and fits at
  every position. (\<^verbatim>\<open>$\<close> without the multiline flag is the end of the input.)\<close>

datatype pos = Digit | Lit char

fun fits :: "pos \<Rightarrow> char \<Rightarrow> bool" where
  "fits Digit c = isDigit c"
| "fits (Lit d) c = (c = d)"

definition matches :: "pos list \<Rightarrow> string \<Rightarrow> bool" where
  "matches p s \<longleftrightarrow> list_all2 fits p s"

text \<open>\<^verbatim>\<open>/^\d{4}-\d{2}-\d{2}T\d{2}:\d{2}:\d{2}/\<close>, the common prefix of the two timestamp
  patterns.\<close>

definition secondsPattern :: "pos list" where
  "secondsPattern =
     [Digit, Digit, Digit, Digit, Lit CHR ''-'', Digit, Digit, Lit CHR ''-'', Digit, Digit,
      Lit CHR ''T'', Digit, Digit, Lit CHR '':'', Digit, Digit, Lit CHR '':'', Digit, Digit]"

text \<open>\<^verbatim>\<open>/^\d{4}-\d{2}-\d{2}T\d{2}:\d{2}:\d{2}\.\d{3}Z$/\<close>\<close>

definition isIsoTimestamp :: "string \<Rightarrow> bool" where
  "isIsoTimestamp s \<longleftrightarrow>
     matches (secondsPattern @ [Lit CHR ''.'', Digit, Digit, Digit, Lit CHR ''Z'']) s"

text \<open>\<^verbatim>\<open>/^\d{4}-\d{2}-\d{2}T\d{2}:\d{2}:\d{2}(\.\d{1,3})?Z$/\<close>\<close>

definition isPythonTimestamp :: "string \<Rightarrow> bool" where
  "isPythonTimestamp s \<longleftrightarrow>
     matches (secondsPattern @ [Lit CHR ''Z'']) s \<or>
     matches (secondsPattern @ [Lit CHR ''.'', Digit, Lit CHR ''Z'']) s \<or>
     matches (secondsPattern @ [Lit CHR ''.'', Digit, Digit, Lit CHR ''Z'']) s \<or>
     matches (secondsPattern @ [Lit CHR ''.'', Digit, Digit, Digit, Lit CHR ''Z'']) s"

text \<open>\<^verbatim>\<open>/^[0-9a-fA-F-]{36}$/\<close>\<close>

definition isRequestId :: "string \<Rightarrow> bool" where
  "isRequestId s \<longleftrightarrow> length s = 36 \<and> list_all isHexOrDash s"

text \<open>\<^verbatim>\<open>/\sTraceback \(most recent call last\):\s/\<close>, not anchored: some position holds
  a white space, then the literal, then a white space.\<close>

definition tracebackText :: string where
  "tracebackText = ''Traceback (most recent call last):''"

definition tracebackHere :: "string \<Rightarrow> bool" where
  "tracebackHere s \<longleftrightarrow>
     (case s of
        [] \<Rightarrow> False
      | c # r \<Rightarrow>
          isWhiteSpace c \<and> js_startsWith r tracebackText \<and>
          (case drop (length tracebackText) r of [] \<Rightarrow> False | d # _ \<Rightarrow> isWhiteSpace d))"

fun hasTraceback :: "string \<Rightarrow> bool" where
  "hasTraceback [] = False"
| "hasTraceback (c # r) = (tracebackHere (c # r) \<or> hasTraceback r)"

subsection \<open>The data model\<close>

datatype level = INFO | WARN | ERROR | START | END | REPORT

text \<open>A raw event of the log service: the four properties the pipeline reads.\<close>

record event =
  ev_eventId :: string
  ev_logStreamName :: string
  ev_timestamp :: int
  ev_message :: string

text \<open>\<^verbatim>\<open>sortLogs\<close> spreads the event into a new object with one more property.\<close>

record keyedEvent = event +
  sortKey :: string

text \<open>\<^verbatim>\<open>Log["invocationMetadata"]\<close>. The source declares the first three as numbers and
  stores the tokens of the REPORT line, which are strings.\<close>

record invocationMetadata =
  md_duration :: "string option"
  md_memSize :: "string option"
  md_memUsed :: "string option"
  md_xrayTraceId :: "string option"
  md_isFailed :: "bool option"

text \<open>\<^verbatim>\<open>Log\<close>. The level is unset until a matcher, or the default at the end of
  \<^verbatim>\<open>parseLogMetadata\<close>, assigns it.\<close>

record log =
  log_id :: string
  log_message :: string
  log_timestamp :: int
  log_level :: "level option"
  log_requestId :: "string option"
  log_logStream :: string
  log_invocationMetadata :: "invocationMetadata option"

text \<open>\<^verbatim>\<open>Invocation\<close>. \<^verbatim>\<open>groupLogs\<close> pushes messages, not \<^verbatim>\<open>Log\<close> objects, onto \<open>logs\<close>.\<close>

record invocation =
  logs :: "string list"
  requestId :: "string option"
  logStream :: "string option"
  firstLineTime :: "int option"
  startTime :: "int option"
  endTime :: "int option"
  duration :: "string option"
  memSize :: "string option"
  memUsed :: "string option"
  xrayTraceId :: "string option"
  logLevel :: level

subsection \<open>Exceptions\<close>

text \<open>
  The file is an ECMAScript module (it has \<^verbatim>\<open>import\<close> and \<^verbatim>\<open>export\<close> declarations), so
  all of its code is strict mode code. In strict mode code an assignment to an identifier
  that no scope declares does not create a global: it throws a \<^verbatim>\<open>ReferenceError\<close>, after
  the right-hand side has been evaluated and before anything is stored.
\<close>

datatype js_error = ReferenceError string

definition assignUndeclared :: "string \<Rightarrow> 'a \<Rightarrow> js_error + 'a" where
  "assignUndeclared name v = Inl (ReferenceError name)"

subsection \<open>The matchers of the classifier\<close>

text \<open>Every matcher mutates the log when its pattern fits and returns nothing. The model
  of a matcher returns the log after the call.\<close>

definition emptyMetadata :: invocationMetadata where
  "emptyMetadata =
     \<lparr>md_duration = None, md_memSize = None, md_memUsed = None, md_xrayTraceId = None,
      md_isFailed = None\<rparr>"

text \<open>\<^verbatim>\<open>log.invocationMetadata || {}\<close>\<close>

definition orEmptyMetadata :: "invocationMetadata option \<Rightarrow> invocationMetadata" where
  "orEmptyMetadata m = (case m of None \<Rightarrow> emptyMetadata | Some md \<Rightarrow> md)"

definition parseLambdaSTART :: "log \<Rightarrow> log" where
  "parseLambdaSTART l =
     (if js_startsWith (log_message l) ''START RequestId: ''
      then l\<lparr>log_level := Some START, log_requestId := Some (js_substr (log_message l) 17 36)\<rparr>
      else l)"

definition parseLambdaEND :: "log \<Rightarrow> log" where
  "parseLambdaEND l =
     (if js_startsWith (log_message l) ''END RequestId: ''
      then l\<lparr>log_level := Some END, log_requestId := Some (js_substr (log_message l) 15 36)\<rparr>
      else l)"

text \<open>The body of the \<^verbatim>\<open>forEach\<close> over the tab-separated parts of a REPORT line.\<close>

definition reportPart :: "invocationMetadata \<Rightarrow> string \<Rightarrow> invocationMetadata" where
  "reportPart md part0 =
     (let part = js_trim part0 in
      if js_startsWith part ''Duration''
        then md\<lparr>md_duration := js_index (js_split CHR '' '' part) 1\<rparr>
      else if js_startsWith part ''Memory Size''
        then md\<lparr>md_memSize := js_index (js_split CHR '' '' part) 2\<rparr>
      else if js_startsWith part ''Max Memory Used''
        then md\<lparr>md_memUsed := js_index (js_split CHR '' '' part) 3\<rparr>
      else if js_startsWith part ''XRAY TraceId''
        then md\<lparr>md_xrayTraceId := js_index (js_split CHR '' '' part) 2\<rparr>
      else md)"

definition parseLambdaREPORT :: "log \<Rightarrow> log" where
  "parseLambdaREPORT l =
     (if js_startsWith (log_message l) ''REPORT RequestId: ''
      then l\<lparr>log_level := Some REPORT,
             log_requestId := Some (js_substr (log_message l) 18 36),
             log_invocationMetadata :=
               Some (foldl reportPart (orEmptyMetadata (log_invocationMetadata l))
                      (js_split CHR 0x09 (log_message l)))\<rparr>
      else l)"

definition parseLambdaTimeoutOrMessage :: "log \<Rightarrow> string list \<Rightarrow> log" where
  "parseLambdaTimeoutOrMessage l spcParts =
     (if length spcParts \<ge> 3 \<and> isIsoTimestamp (spcParts ! 0) \<and> isRequestId (spcParts ! 1)
      then
        (let message = js_join '' '' (drop 2 spcParts);
             isFailed = js_startsWith message ''Task timed out after'';
             md = orEmptyMetadata (log_invocationMetadata l)
         in l\<lparr>log_requestId := Some (spcParts ! 1),
               log_level := Some (if isFailed then ERROR else INFO),
               log_message := message,
               log_invocationMetadata :=
                 Some (md\<lparr>md_isFailed :=
                   Some (if md_isFailed md = Some True then True else isFailed)\<rparr>)\<rparr>)
      else l)"

definition parseLambdaExited :: "log \<Rightarrow> string list \<Rightarrow> log" where
  "parseLambdaExited l spcParts =
     (if length spcParts \<ge> 3 \<and> spcParts ! 0 = ''RequestId:'' \<and> isRequestId (spcParts ! 1)
      then
        l\<lparr>log_requestId := Some (spcParts ! 1),
          log_level := Some ERROR,
          log_message := js_join '' '' (drop 2 spcParts),
          log_invocationMetadata :=
            Some ((orEmptyMetadata (log_invocationMetadata l))\<lparr>md_isFailed := Some True\<rparr>)\<rparr>
      else l)"

definition parseLambdaUnknownApplicationError :: "log \<Rightarrow> log" where
  "parseLambdaUnknownApplicationError l =
     (if js_startsWith (log_message l) ''Unknown application error occurred''
      then l\<lparr>log_level := Some ERROR,
             log_invocationMetadata := Some (orEmptyMetadata (log_invocationMetadata l))\<rparr>
      else l)"

definition parseLambdaModuleInitializationError :: "log \<Rightarrow> log" where
  "parseLambdaModuleInitializationError l =
     (if js_startsWith (log_message l) ''module initialization error''
      then l\<lparr>log_level := Some ERROR,
             log_invocationMetadata := Some (orEmptyMetadata (log_invocationMetadata l))\<rparr>
      else l)"

text \<open>
  \<^verbatim>\<open>parseLambdaNodeLog\<close>. Its first statement is
  \<^verbatim>\<open>log.requestId = requestId = tabParts[1].match(...) !== null ? tabParts[1] : undefined;\<close>
  and \<^verbatim>\<open>requestId\<close> is declared neither in the function nor in the module: the inner
  assignment throws before \<^verbatim>\<open>log.requestId\<close> is stored, so the log leaves the function as
  it entered, with the exception. The statements after it are kept as the source has
  them.
\<close>

definition parseLambdaNodeLog :: "log \<Rightarrow> string list \<Rightarrow> (js_error \<times> log) + log" where
  "parseLambdaNodeLog l tabParts =
     (if length tabParts \<ge> 3 \<and> isIsoTimestamp (tabParts ! 0)
      then
        (case assignUndeclared ''requestId''
                (if isRequestId (tabParts ! 1) then Some (tabParts ! 1) else None) of
           Inl e \<Rightarrow> Inl (e, l)
         | Inr rid \<Rightarrow>
             (let l1 = l\<lparr>log_requestId := rid\<rparr> in
              if tabParts ! 2 = ''INFO''
                then Inr (l1\<lparr>log_level := Some INFO,
                             log_message := js_join [CHR 0x09] (drop 3 tabParts)\<rparr>)
              else if tabParts ! 2 = ''WARN''
                then Inr (l1\<lparr>log_level := Some WARN,
                             log_message := js_join [CHR 0x09] (drop 3 tabParts)\<rparr>)
              else if tabParts ! 2 = ''ERROR''
                then Inr (l1\<lparr>log_level := Some ERROR,
                             log_message := js_join [CHR 0x09] (drop 3 tabParts)\<rparr>)
              else Inr (l1\<lparr>log_level := Some INFO,
                            log_message := js_join [CHR 0x09] (drop 2 tabParts)\<rparr>)))
      else Inr l)"

definition parseLambdaPythonLog :: "log \<Rightarrow> string list \<Rightarrow> log" where
  "parseLambdaPythonLog l tabParts =
     (if length tabParts \<ge> 4 \<and> isPythonTimestamp (tabParts ! 1) \<and> isRequestId (tabParts ! 2)
      then
        l\<lparr>log_requestId := Some (tabParts ! 2),
          log_level :=
            Some (if tabParts ! 0 = ''[INFO]'' then INFO
                  else if tabParts ! 0 = ''[WARNING]'' then WARN
                  else if tabParts ! 0 = ''[ERROR]'' \<or> tabParts ! 0 = ''[CRITICAL]'' then ERROR
                  else INFO),
          log_message := tabParts ! 0 @ '' '' @ js_join [CHR 0x09] (drop 3 tabParts)\<rparr>
      else l)"

definition parseLambdaPythonTraceback :: "log \<Rightarrow> log" where
  "parseLambdaPythonTraceback l =
     (if hasTraceback (log_message l)
      then l\<lparr>log_level := Some ERROR,
             log_invocationMetadata :=
               Some ((orEmptyMetadata (log_invocationMetadata l))\<lparr>md_isFailed := Some True\<rparr>)\<rparr>
      else l)"

subsection \<open>The classifier\<close>

text \<open>
  The body of the \<^verbatim>\<open>try\<close> block of \<^verbatim>\<open>parseLogMetadata\<close>. A chain
  \<^verbatim>\<open>f(log) || g(log) || h(log)\<close> calls every function of the chain, since each returns
  \<^verbatim>\<open>undefined\<close>; only a leading \<^verbatim>\<open>log.level ||\<close> skips the chain, when the level is set
  as the chain begins. The result is the log after the block, or the exception with the
  log as it was when thrown.
\<close>

definition tryBlock :: "log \<Rightarrow> string \<Rightarrow> (js_error \<times> log) + log" where
  "tryBlock l0 runtime =
     (let l1 = parseLambdaREPORT (parseLambdaEND (parseLambdaSTART l0));
          spcParts = js_split CHR '' '' (log_message l1);
          l2 = (if log_level l1 \<noteq> None then l1
                else parseLambdaTimeoutOrMessage
                       (parseLambdaExited
                          (parseLambdaModuleInitializationError
                             (parseLambdaUnknownApplicationError l1))
                          spcParts)
                       spcParts);
          tabParts = js_split CHR 0x09 (log_message l2)
      in case (if js_startsWith runtime ''nodejs'' \<and> log_level l2 = None
               then parseLambdaNodeLog l2 tabParts else Inr l2) of
           Inl e \<Rightarrow> Inl e
         | Inr l3 \<Rightarrow>
             Inr (if js_startsWith runtime ''python'' \<and> log_level l3 = None
                  then parseLambdaPythonTraceback (parseLambdaPythonLog l3 tabParts)
                  else l3))"

definition parseLogMetadata :: "'a event_scheme \<Rightarrow> string \<Rightarrow> log" where
  "parseLogMetadata event runtime =
     (let l0 = \<lparr>log_id = ev_eventId event,
                log_message = js_trim (ev_message event),
                log_timestamp = ev_timestamp event,
                log_level = None,
                log_requestId = None,
                log_logStream = ev_logStreamName event,
                log_invocationMetadata = None\<rparr>;
          l = (case tryBlock l0 runtime of Inl (e, lt) \<Rightarrow> lt | Inr lr \<Rightarrow> lr)
      in if log_level l = None then l\<lparr>log_level := Some INFO\<rparr> else l)"

subsection \<open>The normaliser\<close>

text \<open>\<^verbatim>\<open>uniqBy\<close> of the remeda library: the first element of every key, in the order of
  the input.\<close>

fun uniqByFrom :: "'k list \<Rightarrow> ('a \<Rightarrow> 'k) \<Rightarrow> 'a list \<Rightarrow> 'a list" where
  "uniqByFrom seen f [] = []"
| "uniqByFrom seen f (x # xs) =
     (if f x \<in> set seen then uniqByFrom seen f xs else x # uniqByFrom (f x # seen) f xs)"

definition uniqBy :: "'a list \<Rightarrow> ('a \<Rightarrow> 'k) \<Rightarrow> 'a list" where
  "uniqBy xs f = uniqByFrom [] f xs"

definition withSortKey :: "event \<Rightarrow> keyedEvent" where
  "withSortKey e = event.extend e
     \<lparr>sortKey = ev_logStreamName e @ ''-'' @ ev_eventId e\<rparr>"

text \<open>\<^verbatim>\<open>Array.prototype.sort\<close> is stable, and the comparator of \<^verbatim>\<open>sortLogs\<close> is the order
  of the keys: a stable sort by key.\<close>

definition sortLogs :: "event list \<Rightarrow> keyedEvent list" where
  "sortLogs events = sort_key sortKey (map withSortKey events)"

subsection \<open>The grouper\<close>

text \<open>\<^verbatim>\<open>{ logs: [], logLevel: "INFO" }\<close>\<close>

definition emptyInvocation :: invocation where
  "emptyInvocation =
     \<lparr>logs = [], requestId = None, logStream = None, firstLineTime = None, startTime = None,
      endTime = None, duration = None, memSize = None, memUsed = None, xrayTraceId = None,
      logLevel = INFO\<rparr>"

text \<open>\<^verbatim>\<open>currentInvocation.logs.length > 0 && invocations.push(currentInvocation)\<close>. Every
  push of the source is followed by the assignment of a fresh object to
  \<^verbatim>\<open>currentInvocation\<close>, so a pushed invocation is never mutated again.\<close>

definition pushIfNonEmpty :: "invocation list \<Rightarrow> invocation \<Rightarrow> invocation list" where
  "pushIfNonEmpty invocations cur =
     (if length (logs cur) > 0 then invocations @ [cur] else invocations)"

text \<open>\<^verbatim>\<open>log.invocationMetadata?.field\<close>\<close>

definition metadataField ::
    "(invocationMetadata \<Rightarrow> 'a option) \<Rightarrow> invocationMetadata option \<Rightarrow> 'a option" where
  "metadataField field m = (case m of None \<Rightarrow> None | Some md \<Rightarrow> field md)"

text \<open>The assignment to \<^verbatim>\<open>currentInvocation.logLevel\<close> in the last branch of the loop.\<close>

definition nextLogLevel :: "level \<Rightarrow> level option \<Rightarrow> level" where
  "nextLogLevel current lineLevel =
     (if lineLevel = Some ERROR then ERROR
      else if lineLevel = Some WARN \<and> current \<noteq> ERROR then WARN
      else INFO)"

text \<open>The body of the \<^verbatim>\<open>forEach\<close> of \<^verbatim>\<open>groupLogs\<close>, on the pair of the pushed
  invocations and the current one.\<close>

definition groupStep ::
    "invocation list \<times> invocation \<Rightarrow> log \<Rightarrow> invocation list \<times> invocation" where
  "groupStep st l =
     (let (invocations0, cur0) = st;
          (invocations, cur) =
            (if Some (log_logStream l) \<noteq> logStream cur0
             then (pushIfNonEmpty invocations0 cur0, emptyInvocation)
             else (invocations0, cur0))
      in if log_level l = Some START then
           (pushIfNonEmpty invocations cur,
            emptyInvocation
              \<lparr>logs := [log_message l],
               requestId := log_requestId l,
               logStream := Some (log_logStream l),
               firstLineTime := Some (log_timestamp l),
               startTime := Some (log_timestamp l)\<rparr>)
         else if log_level l = Some REPORT then
           (invocations @
              [cur\<lparr>logs := logs cur @ [log_message l],
                   requestId := or_string (requestId cur) (log_requestId l),
                   logStream := Some (log_logStream l),
                   firstLineTime := or_number (firstLineTime cur) (log_timestamp l),
                   endTime := Some (log_timestamp l),
                   duration := metadataField md_duration (log_invocationMetadata l),
                   memSize := metadataField md_memSize (log_invocationMetadata l),
                   memUsed := metadataField md_memUsed (log_invocationMetadata l),
                   xrayTraceId := metadataField md_xrayTraceId (log_invocationMetadata l)\<rparr>],
            emptyInvocation)
         else
           (invocations,
            cur\<lparr>logs := logs cur @ [log_message l],
                requestId := or_string (requestId cur) (log_requestId l),
                logStream := Some (log_logStream l),
                firstLineTime := or_number (firstLineTime cur) (log_timestamp l),
                logLevel := nextLogLevel (logLevel cur) (log_level l)\<rparr>))"

text \<open>The invocations pushed by the loop and by the statement after it, in the order of
  the pushes.\<close>

definition flushedInvocations :: "log list \<Rightarrow> invocation list" where
  "flushedInvocations ls =
     (let (invocations, cur) = foldl groupStep ([], emptyInvocation) ls
      in pushIfNonEmpty invocations cur)"

text \<open>
  \<^verbatim>\<open>(a, b) => b.firstLineTime - a.firstLineTime\<close>. With a time unset the difference is
  \<^verbatim>\<open>NaN\<close>, which the sort reads as zero.
\<close>

definition compareInvocations :: "invocation \<Rightarrow> invocation \<Rightarrow> int" where
  "compareInvocations a b =
     (case (firstLineTime b, firstLineTime a) of
        (Some tb, Some ta) \<Rightarrow> tb - ta
      | _ \<Rightarrow> 0)"

text \<open>\<^verbatim>\<open>Array.prototype.sort\<close> with a comparator, as a stable insertion sort: an element
  goes before the first element it does not compare greater than. (Where the comparator
  is not a consistent order, which needs an unset time, the language leaves the order to
  the engine.)\<close>

fun insertBy :: "('a \<Rightarrow> 'a \<Rightarrow> int) \<Rightarrow> 'a \<Rightarrow> 'a list \<Rightarrow> 'a list" where
  "insertBy cmp x [] = [x]"
| "insertBy cmp x (y # ys) = (if cmp x y \<le> 0 then x # y # ys else y # insertBy cmp x ys)"

definition sortBy :: "('a \<Rightarrow> 'a \<Rightarrow> int) \<Rightarrow> 'a list \<Rightarrow> 'a list" where
  "sortBy cmp xs = foldr (insertBy cmp) xs []"

definition groupLogs :: "log list \<Rightarrow> invocation list" where
  "groupLogs ls = sortBy compareInvocations (flushedInvocations ls)"

subsection \<open>The pipeline\<close>

text \<open>The four lines of \<^verbatim>\<open>useLogsQuery\<close> from the fetched events to its \<^verbatim>\<open>data\<close>:
  \<^verbatim>\<open>unique\<close> and \<^verbatim>\<open>sorted\<close>, then \<^verbatim>\<open>parsed\<close>, then \<^verbatim>\<open>invocations\<close>.\<close>

definition normalize :: "event list \<Rightarrow> keyedEvent list" where
  "normalize events = sortLogs (uniqBy events ev_eventId)"

definition classify :: "event list \<Rightarrow> string \<Rightarrow> log list" where
  "classify events runtime = map (\<lambda>event. parseLogMetadata event runtime) (normalize events)"

definition invocationsOf :: "event list \<Rightarrow> string \<Rightarrow> invocation list" where
  "invocationsOf events runtime = groupLogs (classify events runtime)"

subsection \<open>Auxiliary notions and example inputs\<close>

text \<open>What the loop maintains for every pushed invocation: it holds a message and its
  first-line time is set.\<close>

definition flushable :: "invocation \<Rightarrow> bool" where
  "flushable i \<longleftrightarrow> logs i \<noteq> [] \<and> firstLineTime i \<noteq> None"

text \<open>The key by which the comparator orders invocations whose times are set.\<close>

definition timeKey :: "invocation \<Rightarrow> int" where
  "timeKey i = - the (firstLineTime i)"

definition tab :: string where
  "tab = [CHR 0x09]"

definition mkEvent :: "string \<Rightarrow> string \<Rightarrow> int \<Rightarrow> string \<Rightarrow> event" where
  "mkEvent i s t m =
     \<lparr>ev_eventId = i, ev_logStreamName = s, ev_timestamp = t, ev_message = m\<rparr>"

definition mkLog :: "string \<Rightarrow> string \<Rightarrow> int \<Rightarrow> level \<Rightarrow> string \<Rightarrow> log" where
  "mkLog i s t lv m =
     \<lparr>log_id = i, log_message = m, log_timestamp = t, log_level = Some lv,
      log_requestId = None, log_logStream = s, log_invocationMetadata = None\<rparr>"


text \<open>Three streams with one START line each, at the times 5, 9 and 5.\<close>

definition threeStreams :: "log list" where
  "threeStreams =
     [mkLog ''1'' ''a'' 5 START ''first'',
      mkLog ''2'' ''b'' 9 START ''second'',
      mkLog ''3'' ''c'' 5 START ''third'']"

text \<open>A stream with a body line and a REPORT line, then a second stream with one line.\<close>

definition twoStreams :: "log list" where
  "twoStreams =
     [mkLog ''1'' ''a'' 1 INFO ''body'',
      mkLog ''2'' ''a'' 2 REPORT ''report'',
      mkLog ''3'' ''b'' 3 WARN ''other'']"

text \<open>Some matcher of the cascade fits the (trimmed) message \<open>m\<close>: the conditions of the
  matchers of \<^verbatim>\<open>parseLogMetadata\<close>, those of the two runtime families under their
  runtime tests.\<close>

definition matchesSomeMatcher :: "string \<Rightarrow> string \<Rightarrow> bool" where
  "matchesSomeMatcher m runtime \<longleftrightarrow>
     (let spcParts = js_split CHR '' '' m; tabParts = js_split CHR 0x09 m in
      js_startsWith m ''START RequestId: '' \<or>
      js_startsWith m ''END RequestId: '' \<or>
      js_startsWith m ''REPORT RequestId: '' \<or>
      js_startsWith m ''Unknown application error occurred'' \<or>
      js_startsWith m ''module initialization error'' \<or>
      (length spcParts \<ge> 3 \<and> spcParts ! 0 = ''RequestId:'' \<and> isRequestId (spcParts ! 1)) \<or>
      (length spcParts \<ge> 3 \<and> isIsoTimestamp (spcParts ! 0) \<and> isRequestId (spcParts ! 1)) \<or>
      (js_startsWith runtime ''nodejs'' \<and>
         length tabParts \<ge> 3 \<and> isIsoTimestamp (tabParts ! 0)) \<or>
      (js_startsWith runtime ''python'' \<and>
         (length tabParts \<ge> 4 \<and> isPythonTimestamp (tabParts ! 1) \<and> isRequestId (tabParts ! 2)
          \<or> hasTraceback m)))"

text \<open>An INFO line, an ERROR line and an INFO line of one stream, with no START or REPORT
  between them.\<close>

definition downgradeEvents :: "event list" where
  "downgradeEvents =
     [mkEvent ''1'' ''s'' 1 ''hello'',
      mkEvent ''2'' ''s'' 2 ''Unknown application error occurred'',
      mkEvent ''3'' ''s'' 3 ''bye'']"

text \<open>A line that no matcher fits, as the log service delivers it: with its newline.\<close>

definition paddedLine :: event where
  "paddedLine = mkEvent ''1'' ''s'' 1 ''hello\<newline>''"

text \<open>A line of the Node.js 10.x format, from the comment of \<^verbatim>\<open>parseLambdaNodeLog\<close>.\<close>

definition nodeErrorLine :: event where
  "nodeErrorLine = mkEvent ''1'' ''s'' 1
     (''2019-11-12T20:00:30.184Z'' @ tab @ ''cc81b998-c7de-46fb-a9ef-3423ccdcda98'' @ tab @
      ''ERROR'' @ tab @ ''error hello'')"

text \<open>A tagged line of the Python format whose text goes on with a traceback.\<close>

definition pythonTracebackLine :: event where
  "pythonTracebackLine = mkEvent ''1'' ''s'' 1
     (''[INFO]'' @ tab @ ''2019-11-12T20:00:30.183Z'' @ tab @
      ''cc81b998-c7de-46fb-a9ef-3423ccdcda98'' @ tab @
      ''failed\<newline>Traceback (most recent call last):\<newline>  File main.py'')"

text \<open>Two events of two streams, the name of the first a prefix of the name of the
  second.\<close>

definition prefixStreams :: "event list" where
  "prefixStreams = [mkEvent ''36'' ''app'' 1 ''m1'', mkEvent ''37'' ''app-1'' 2 ''m2'']"

text \<open>The timeout line of the comment of \<^verbatim>\<open>parseLambdaTimeoutOrMessage\<close>, with the
  timestamp and the request id of the specification's example.\<close>

definition timeoutLine :: event where
  "timeoutLine = mkEvent ''1'' ''s'' 1
     ''2022-01-01T00:00:00.000Z abcdefab-abcd-abcd-abcd-abcdefabcdef Task timed out after 6.00 seconds''"

text \<open>The runtime is of the first family and the condition of \<^verbatim>\<open>parseLambdaNodeLog\<close>
  accepts the (trimmed) message \<open>m\<close>.\<close>

definition nodeMatcherFits :: "string \<Rightarrow> string \<Rightarrow> bool" where
  "nodeMatcherFits m runtime \<longleftrightarrow>
     js_startsWith runtime ''nodejs'' \<and>
     (let tabParts = js_split CHR 0x09 m
      in length tabParts \<ge> 3 \<and> isIsoTimestamp (tabParts ! 0))"

text \<open>
  The message that the classifier leaves on a line, as a function of the raw message and
  the runtime: the trimmed message, but the tokens after the second, joined by spaces,
  where \<^verbatim>\<open>parseLambdaExited\<close> or \<^verbatim>\<open>parseLambdaTimeoutOrMessage\<close> rewrites it, and the tag,
  a space and the tokens after the third, joined by tabs, where
  \<^verbatim>\<open>parseLambdaPythonLog\<close> does. The lemma \<open>log_message_parseLogMetadata\<close> proves that
  \<^verbatim>\<open>parseLogMetadata\<close> computes it; the claims use it for the lines that
  \<^verbatim>\<open>parseLambdaNodeLog\<close> does not accept.
\<close>

definition classifiedMessage :: "string \<Rightarrow> string \<Rightarrow> string" where
  "classifiedMessage raw runtime =
     (let m = js_trim raw;
          spcParts = js_split CHR '' '' m;
          tabParts = js_split CHR 0x09 m
      in if js_startsWith m ''START RequestId: '' \<or> js_startsWith m ''END RequestId: '' \<or>
            js_startsWith m ''REPORT RequestId: ''
           then m
         else if length spcParts \<ge> 3 \<and> isRequestId (spcParts ! 1) \<and>
                 (spcParts ! 0 = ''RequestId:'' \<or> isIsoTimestamp (spcParts ! 0))
           then js_join '' '' (drop 2 spcParts)
         else if js_startsWith m ''Unknown application error occurred'' \<or>
                 js_startsWith m ''module initialization error''
           then m
         else if js_startsWith runtime ''python'' \<and> length tabParts \<ge> 4 \<and>
                 isPythonTimestamp (tabParts ! 1) \<and> isRequestId (tabParts ! 2)
           then tabParts ! 0 @ '' '' @ js_join [CHR 0x09] (drop 3 tabParts)
         else m)"

text \<open>Two lines of one stream as the log service delivers them, each with its newline: a
  line that no matcher fits and a timeout line.\<close>

definition rewrittenEvents :: "event list" where
  "rewrittenEvents =
     [mkEvent ''1'' ''s'' 1 ''hello\<newline>'',
      mkEvent ''2'' ''s'' 2
        ''2022-01-01T00:00:00.000Z abcdefab-abcd-abcd-abcd-abcdefabcdef Task timed out after 6.00 seconds\<newline>'']"

section \<open>Properties\<close>

subsection \<open>What the grouping loop maintains\<close>

lemma logs_emptyInvocation: "logs emptyInvocation = []"
  by (simp add: emptyInvocation_def)

lemma concat_pushIfNonEmpty:
  "concat (map logs (pushIfNonEmpty invs cur)) = concat (map logs invs) @ logs cur"
  by (simp add: pushIfNonEmpty_def)

lemma groupStep_logs:
  assumes "groupStep (invs, cur) l = (invs', cur')"
  shows "concat (map logs invs') @ logs cur' =
         concat (map logs invs) @ logs cur @ [log_message l]"
  using assms
  by (auto simp: groupStep_def Let_def concat_pushIfNonEmpty logs_emptyInvocation
      split: if_splits)

lemma foldl_groupStep_logs:
  "foldl groupStep (invs, cur) ls = (invs', cur') \<Longrightarrow>
   concat (map logs invs') @ logs cur' =
   concat (map logs invs) @ logs cur @ map log_message ls"
proof (induction ls arbitrary: invs cur)
  case Nil
  then show ?case by simp
next
  case (Cons l ls)
  obtain i1 c1 where s: "groupStep (invs, cur) l = (i1, c1)"
    by (cases "groupStep (invs, cur) l")
  from Cons.prems s have "foldl groupStep (i1, c1) ls = (invs', cur')" by simp
  from Cons.IH[OF this] groupStep_logs[OF s] show ?case by simp
qed

lemma concat_flushedInvocations:
  "concat (map logs (flushedInvocations ls)) = map log_message ls"
proof -
  obtain i c where f: "foldl groupStep ([], emptyInvocation) ls = (i, c)"
    by (cases "foldl groupStep ([], emptyInvocation) ls")
  from foldl_groupStep_logs[OF f] show ?thesis
    by (simp add: flushedInvocations_def f concat_pushIfNonEmpty logs_emptyInvocation)
qed

lemma or_number_Some: "\<exists>y. or_number a b = Some y"
  by (simp add: or_number_def split: option.splits)

lemma list_all_pushIfNonEmpty:
  "list_all flushable invs \<Longrightarrow> (logs cur \<noteq> [] \<Longrightarrow> firstLineTime cur \<noteq> None) \<Longrightarrow>
   list_all flushable (pushIfNonEmpty invs cur)"
  by (simp add: pushIfNonEmpty_def flushable_def)

lemma groupStep_flushable:
  assumes "groupStep (invs, cur) l = (invs', cur')"
    and "list_all flushable invs" and "logs cur \<noteq> [] \<Longrightarrow> firstLineTime cur \<noteq> None"
  shows "list_all flushable invs' \<and> (logs cur' \<noteq> [] \<longrightarrow> firstLineTime cur' \<noteq> None)"
  using assms
  by (auto simp: groupStep_def Let_def logs_emptyInvocation or_number_Some flushable_def
      pushIfNonEmpty_def split: if_splits)

lemma foldl_groupStep_flushable:
  "foldl groupStep (invs, cur) ls = (invs', cur') \<Longrightarrow> list_all flushable invs \<Longrightarrow>
   (logs cur \<noteq> [] \<longrightarrow> firstLineTime cur \<noteq> None) \<Longrightarrow>
   list_all flushable invs' \<and> (logs cur' \<noteq> [] \<longrightarrow> firstLineTime cur' \<noteq> None)"
proof (induction ls arbitrary: invs cur)
  case Nil
  then show ?case by simp
next
  case (Cons l ls)
  obtain i1 c1 where s: "groupStep (invs, cur) l = (i1, c1)"
    by (cases "groupStep (invs, cur) l")
  from Cons.prems s have f: "foldl groupStep (i1, c1) ls = (invs', cur')" by simp
  from groupStep_flushable[OF s] Cons.prems
  have "list_all flushable i1 \<and> (logs c1 \<noteq> [] \<longrightarrow> firstLineTime c1 \<noteq> None)" by blast
  with Cons.IH[OF f] show ?case by blast
qed

lemma flushedInvocations_flushable: "list_all flushable (flushedInvocations ls)"
proof -
  obtain i c where f: "foldl groupStep ([], emptyInvocation) ls = (i, c)"
    by (cases "foldl groupStep ([], emptyInvocation) ls")
  from foldl_groupStep_flushable[OF f]
  have "list_all flushable i \<and> (logs c \<noteq> [] \<longrightarrow> firstLineTime c \<noteq> None)"
    by (simp add: logs_emptyInvocation)
  then show ?thesis
    by (simp add: flushedInvocations_def f list_all_pushIfNonEmpty)
qed

subsection \<open>The sort of the invocations\<close>

text \<open>On invocations whose times are set, the comparator sort is the stable sort by the
  negated first-line time.\<close>

lemma insertBy_insort_key:
  "firstLineTime x \<noteq> None \<Longrightarrow> list_all (\<lambda>i. firstLineTime i \<noteq> None) ys \<Longrightarrow>
   insertBy compareInvocations x ys = insort_key timeKey x ys"
  by (induction ys) (auto simp: compareInvocations_def timeKey_def)

lemma sortBy_sort_key:
  "list_all (\<lambda>i. firstLineTime i \<noteq> None) xs \<Longrightarrow>
   sortBy compareInvocations xs = sort_key timeKey xs"
proof (induction xs)
  case Nil
  then show ?case by (simp add: sortBy_def)
next
  case (Cons x xs)
  then have ih: "sortBy compareInvocations xs = sort_key timeKey xs" by simp
  have "list_all (\<lambda>i. firstLineTime i \<noteq> None) (sort_key timeKey xs)"
    using Cons.prems by (simp add: list_all_iff)
  with Cons.prems
  have "insertBy compareInvocations x (sort_key timeKey xs) =
        insort_key timeKey x (sort_key timeKey xs)"
    by (simp add: insertBy_insort_key)
  with ih show ?case by (simp add: sortBy_def)
qed

lemma groupLogs_sort_key: "groupLogs ls = sort_key timeKey (flushedInvocations ls)"
proof -
  have "list_all (\<lambda>i. firstLineTime i \<noteq> None) (flushedInvocations ls)"
    using flushedInvocations_flushable[of ls] by (simp add: list_all_iff flushable_def)
  then show ?thesis by (simp add: groupLogs_def sortBy_sort_key)
qed

lemma groupLogs_flushable: "list_all flushable (groupLogs ls)"
  using flushedInvocations_flushable[of ls] by (simp add: groupLogs_sort_key list_all_iff)

lemma mset_groupLogs: "mset (groupLogs ls) = mset (flushedInvocations ls)"
  by (simp add: groupLogs_sort_key)

subsection \<open>Tokens and prefixes\<close>

lemma js_split_not_Nil: "js_split sep s \<noteq> []"
  by (induction s) (auto split: list.splits)

lemma js_split_first: "js_split sep s ! 0 = takeWhile (\<lambda>c. c \<noteq> sep) s"
  by (induction s) (auto split: list.splits simp: js_split_not_Nil)

lemma isIsoTimestamp_Cons: "isIsoTimestamp t \<Longrightarrow> \<exists>d r. t = d # r \<and> isDigit d"
  by (cases t) (auto simp: isIsoTimestamp_def matches_def secondsPattern_def)

lemma first_token_digit:
  assumes "isIsoTimestamp (js_split sep m ! 0)"
  shows "\<exists>d r. m = d # r \<and> isDigit d"
proof -
  from isIsoTimestamp_Cons[OF assms] obtain d r where
    t: "takeWhile (\<lambda>c. c \<noteq> sep) m = d # r" and d: "isDigit d"
    by (auto simp: js_split_first)
  then show ?thesis by (cases m) (auto split: if_splits)
qed

lemma digit_not_prefix:
  "isDigit d \<Longrightarrow> p \<noteq> [] \<Longrightarrow> \<not> isDigit (hd p) \<Longrightarrow> \<not> js_startsWith (d # r) p"
  by (cases p) (auto simp: js_startsWith_def)

lemma startsWith_hd:
  "js_startsWith m p \<Longrightarrow> p \<noteq> [] \<Longrightarrow> m \<noteq> [] \<and> hd m = hd p"
  by (cases p; cases m) (auto simp: js_startsWith_def)

subsection \<open>The matcher of the first runtime family never returns a match\<close>

lemma parseLambdaNodeLog_throws:
  "length tabParts \<ge> 3 \<Longrightarrow> isIsoTimestamp (tabParts ! 0) \<Longrightarrow>
   parseLambdaNodeLog l tabParts = Inl (ReferenceError ''requestId'', l)"
  by (simp add: parseLambdaNodeLog_def assignUndeclared_def)

lemma parseLambdaNodeLog_no_match:
  "\<not> (length tabParts \<ge> 3 \<and> isIsoTimestamp (tabParts ! 0)) \<Longrightarrow>
   parseLambdaNodeLog l tabParts = Inr l"
  by (simp only: parseLambdaNodeLog_def if_False)

subsection \<open>The normaliser keeps one event per identifier\<close>

lemma uniqByFrom_keys: "set (map f (uniqByFrom seen f xs)) = set (map f xs) - set seen"
  by (induction xs arbitrary: seen) auto

lemma uniqByFrom_distinct: "distinct (map f (uniqByFrom seen f xs))"
  by (induction xs arbitrary: seen) (auto simp: uniqByFrom_keys simp flip: set_map)

lemma ev_eventId_withSortKey: "ev_eventId (withSortKey e) = ev_eventId e"
  by (simp add: withSortKey_def event.defs)

lemma normalize_identifiers:
  "distinct (map ev_eventId (normalize events)) \<and>
   set (map ev_eventId (normalize events)) = set (map ev_eventId events)"
proof -
  have m: "mset (map ev_eventId (normalize events)) = mset (map ev_eventId (uniqBy events ev_eventId))"
    by (simp add: normalize_def sortLogs_def multiset.map_comp comp_def ev_eventId_withSortKey)
  have "distinct (map ev_eventId (uniqBy events ev_eventId))"
    by (simp add: uniqBy_def uniqByFrom_distinct)
  then have d: "distinct (map ev_eventId (normalize events))"
    using m by (metis mset_eq_imp_distinct_iff)
  have "set (map ev_eventId (normalize events)) = set (map ev_eventId (uniqBy events ev_eventId))"
    using m by (metis set_mset_mset)
  also have "\<dots> = set (map ev_eventId events)"
    by (simp only: uniqBy_def uniqByFrom_keys) simp
  finally show ?thesis using d by simp
qed

lemma normalize_sorted: "sorted (map sortKey (normalize events))"
  by (simp add: normalize_def sortLogs_def)



subsection \<open>A REPORT line is classified as such under every runtime\<close>


subsection \<open>The message and the level after each matcher\<close>

lemma message_START: "log_message (parseLambdaSTART l) = log_message l"
  by (simp add: parseLambdaSTART_def)

lemma message_END: "log_message (parseLambdaEND l) = log_message l"
  by (simp add: parseLambdaEND_def)

lemma message_REPORT: "log_message (parseLambdaREPORT l) = log_message l"
  by (simp add: parseLambdaREPORT_def)

lemma message_Unknown: "log_message (parseLambdaUnknownApplicationError l) = log_message l"
  by (simp add: parseLambdaUnknownApplicationError_def)

lemma message_Module: "log_message (parseLambdaModuleInitializationError l) = log_message l"
  by (simp add: parseLambdaModuleInitializationError_def)

lemma message_Traceback: "log_message (parseLambdaPythonTraceback l) = log_message l"
  by (simp add: parseLambdaPythonTraceback_def)


lemma level_START:
  "log_level (parseLambdaSTART l) =
   (if js_startsWith (log_message l) ''START RequestId: '' then Some START else log_level l)"
  by (simp add: parseLambdaSTART_def)

lemma level_END:
  "log_level (parseLambdaEND l) =
   (if js_startsWith (log_message l) ''END RequestId: '' then Some END else log_level l)"
  by (simp add: parseLambdaEND_def)

lemma level_REPORT:
  "log_level (parseLambdaREPORT l) =
   (if js_startsWith (log_message l) ''REPORT RequestId: '' then Some REPORT else log_level l)"
  by (simp add: parseLambdaREPORT_def)

lemma level_Unknown:
  "log_level (parseLambdaUnknownApplicationError l) =
   (if js_startsWith (log_message l) ''Unknown application error occurred'' then Some ERROR
    else log_level l)"
  by (simp add: parseLambdaUnknownApplicationError_def)

lemma level_Module:
  "log_level (parseLambdaModuleInitializationError l) =
   (if js_startsWith (log_message l) ''module initialization error'' then Some ERROR
    else log_level l)"
  by (simp add: parseLambdaModuleInitializationError_def)


lemma message_Exited:
  "log_message (parseLambdaExited l ps) =
   (if length ps \<ge> 3 \<and> ps ! 0 = ''RequestId:'' \<and> isRequestId (ps ! 1)
    then js_join '' '' (drop 2 ps) else log_message l)"
  by (simp only: parseLambdaExited_def) (simp split: if_splits)

lemma level_Exited:
  "log_level (parseLambdaExited l ps) =
   (if length ps \<ge> 3 \<and> ps ! 0 = ''RequestId:'' \<and> isRequestId (ps ! 1)
    then Some ERROR else log_level l)"
  by (simp only: parseLambdaExited_def) (simp split: if_splits)

lemma message_Timeout:
  "log_message (parseLambdaTimeoutOrMessage l ps) =
   (if length ps \<ge> 3 \<and> isIsoTimestamp (ps ! 0) \<and> isRequestId (ps ! 1)
    then js_join '' '' (drop 2 ps) else log_message l)"
  by (simp only: parseLambdaTimeoutOrMessage_def Let_def) (simp split: if_splits)

lemma level_Timeout_None:
  "log_level (parseLambdaTimeoutOrMessage l ps) = None \<longleftrightarrow>
   \<not> (length ps \<ge> 3 \<and> isIsoTimestamp (ps ! 0) \<and> isRequestId (ps ! 1)) \<and> log_level l = None"
  by (simp only: parseLambdaTimeoutOrMessage_def Let_def) (simp split: if_splits)

lemma message_PythonLog:
  "log_message (parseLambdaPythonLog l tp) =
   (if length tp \<ge> 4 \<and> isPythonTimestamp (tp ! 1) \<and> isRequestId (tp ! 2)
    then tp ! 0 @ '' '' @ js_join [CHR 0x09] (drop 3 tp) else log_message l)"
  by (simp only: parseLambdaPythonLog_def) (simp split: if_splits)


lemma nodejs_not_python: "js_startsWith r ''nodejs'' \<Longrightarrow> \<not> js_startsWith r ''python''"
  using startsWith_hd[of r "''nodejs''"] startsWith_hd[of r "''python''"] by auto

subsection \<open>The message the classifier leaves on a line\<close>

lemma log_message_parseLogMetadata:
  "log_message (parseLogMetadata e runtime) = classifiedMessage (ev_message e) runtime"
proof -
  define m where "m = js_trim (ev_message e)"
  define l0 where "l0 =
     \<lparr>log_id = ev_eventId e, log_message = m, log_timestamp = ev_timestamp e,
      log_level = None, log_requestId = None, log_logStream = ev_logStreamName e,
      log_invocationMetadata = None\<rparr>"
  define sp where "sp = js_split CHR '' '' m"
  define tp where "tp = js_split CHR 0x09 m"
  define ser where "ser \<longleftrightarrow> js_startsWith m ''START RequestId: '' \<or>
     js_startsWith m ''END RequestId: '' \<or> js_startsWith m ''REPORT RequestId: ''"
  define ex where "ex \<longleftrightarrow> length sp \<ge> 3 \<and> sp ! 0 = ''RequestId:'' \<and> isRequestId (sp ! 1)"
  define tm where "tm \<longleftrightarrow> length sp \<ge> 3 \<and> isIsoTimestamp (sp ! 0) \<and> isRequestId (sp ! 1)"
  define um where "um \<longleftrightarrow> js_startsWith m ''Unknown application error occurred'' \<or>
     js_startsWith m ''module initialization error''"
  define py where "py \<longleftrightarrow> length tp \<ge> 4 \<and> isPythonTimestamp (tp ! 1) \<and> isRequestId (tp ! 2)"
  define l1 where "l1 = parseLambdaREPORT (parseLambdaEND (parseLambdaSTART l0))"
  define l2 where "l2 = (if log_level l1 \<noteq> None then l1
                else parseLambdaTimeoutOrMessage
                       (parseLambdaExited
                          (parseLambdaModuleInitializationError
                             (parseLambdaUnknownApplicationError l1))
                          sp)
                       sp)"
  define res where "res = (case tryBlock l0 runtime of Inl (x, lt) \<Rightarrow> lt | Inr lr \<Rightarrow> lr)"
  have m0: "log_message l0 = m" and v0: "log_level l0 = None" by (simp_all add: l0_def)
  have m1: "log_message l1 = m"
    by (simp add: l1_def message_START message_END message_REPORT m0)
  have v1: "log_level l1 = None \<longleftrightarrow> \<not> ser"
    by (simp add: l1_def level_START level_END level_REPORT message_START message_END m0 v0
        ser_def)
  have m2: "log_message l2 = (if \<not> ser \<and> (ex \<or> tm) then js_join '' '' (drop 2 sp) else m)"
    unfolding l2_def using v1
    by (auto simp add: message_Timeout message_Exited message_Module message_Unknown m1
        ex_def tm_def)
  have v2: "log_level l2 = None \<longleftrightarrow> \<not> ser \<and> \<not> ex \<and> \<not> tm \<and> \<not> um"
    unfolding l2_def using v1
    by (auto simp add: level_Timeout_None level_Exited level_Module level_Unknown
        message_Unknown m1 ex_def tm_def um_def)
  have cm: "classifiedMessage (ev_message e) runtime =
     (if ser then m else if ex \<or> tm then js_join '' '' (drop 2 sp) else if um then m
      else if js_startsWith runtime ''python'' \<and> py
        then tp ! 0 @ '' '' @ js_join [CHR 0x09] (drop 3 tp) else m)"
    unfolding classifiedMessage_def Let_def m_def[symmetric] sp_def[symmetric]
      tp_def[symmetric] ser_def ex_def tm_def um_def py_def
    by (rule if_cong[OF refl refl] if_cong[OF _ refl] | blast)+
  have tb: "tryBlock l0 runtime =
     (case (if js_startsWith runtime ''nodejs'' \<and> log_level l2 = None
               then parseLambdaNodeLog l2 (js_split CHR 0x09 (log_message l2)) else Inr l2) of
           Inl x \<Rightarrow> Inl x
         | Inr l3 \<Rightarrow>
             Inr (if js_startsWith runtime ''python'' \<and> log_level l3 = None
                  then parseLambdaPythonTraceback
                         (parseLambdaPythonLog l3 (js_split CHR 0x09 (log_message l2)))
                  else l3))"
    unfolding tryBlock_def Let_def l1_def[symmetric] m1 sp_def[symmetric] l2_def[symmetric]
    by (rule refl)
  have r: "log_message res = classifiedMessage (ev_message e) runtime"
  proof (cases "js_startsWith runtime ''nodejs'' \<and> log_level l2 = None \<and>
                length (js_split CHR 0x09 (log_message l2)) \<ge> 3 \<and>
                isIsoTimestamp (js_split CHR 0x09 (log_message l2) ! 0)")
    case True
    then have "tryBlock l0 runtime = Inl (ReferenceError ''requestId'', l2)"
      unfolding tb by (simp add: parseLambdaNodeLog_throws)
    then have "log_message res = log_message l2" by (simp add: res_def)
    moreover from True have "\<not> js_startsWith runtime ''python''"
      by (simp add: nodejs_not_python)
    moreover from True have "\<not> ser \<and> \<not> ex \<and> \<not> tm \<and> \<not> um" by (simp add: v2)
    ultimately show ?thesis by (simp add: m2 cm)
  next
    case False
    then have n: "(if js_startsWith runtime ''nodejs'' \<and> log_level l2 = None
               then parseLambdaNodeLog l2 (js_split CHR 0x09 (log_message l2)) else Inr l2) =
               Inr l2"
      using parseLambdaNodeLog_no_match[of "js_split CHR 0x09 (log_message l2)" l2] by auto
    have t: "tryBlock l0 runtime =
       Inr (if js_startsWith runtime ''python'' \<and> log_level l2 = None
            then parseLambdaPythonTraceback
                   (parseLambdaPythonLog l2 (js_split CHR 0x09 (log_message l2)))
            else l2)"
      unfolding tb n by simp
    show ?thesis
    proof (cases "js_startsWith runtime ''python'' \<and> log_level l2 = None")
      case True
      then have none: "\<not> ser \<and> \<not> ex \<and> \<not> tm \<and> \<not> um" by (simp add: v2)
      then have ml: "log_message l2 = m" by (simp add: m2)
      from True t have "log_message res =
         log_message (parseLambdaPythonLog l2 tp)"
        by (simp add: res_def message_Traceback ml tp_def)
      then show ?thesis using True none
        by (simp add: message_PythonLog cm py_def ml)
    next
      case False
      with t have "log_message res = log_message l2" by (auto simp add: res_def)
      moreover from False have "\<not> js_startsWith runtime ''python'' \<or> ser \<or> ex \<or> tm \<or> um"
        by (auto simp add: v2)
      ultimately show ?thesis by (auto simp add: m2 cm)
    qed
  qed
  have "log_message (parseLogMetadata e runtime) = log_message res"
    unfolding parseLogMetadata_def m_def[symmetric] l0_def[symmetric] Let_def res_def[symmetric]
    by simp
  with r show ?thesis by simp
qed

section \<open>The claims\<close>

subsection \<open>Escalation of the aggregate level\<close>

text \<open>
  Claim C1 says that the aggregate level of an invocation never goes down while its lines
  are folded in, and that an INFO line, an ERROR line and an INFO line leave it at ERROR.
  The assignment of the loop tests the current level only before it answers WARN and
  answers INFO for every line that is neither ERROR nor WARN: on the three lines below
  (classified INFO, ERROR, INFO, all in one invocation) the level of the current
  invocation is INFO, then ERROR, then INFO again, and the invocation of the output has
  the level INFO.
\<close>

theorem escalation_is_lost:
  "map log_level (classify downgradeEvents ''nodejs14.x'') =
     [Some INFO, Some ERROR, Some INFO] \<and>
   map (\<lambda>n. logLevel (snd (foldl groupStep ([], emptyInvocation)
                               (take n (classify downgradeEvents ''nodejs14.x'')))))
       [1, 2, 3] = [INFO, ERROR, INFO] \<and>
   map logLevel (invocationsOf downgradeEvents ''nodejs14.x'') = [INFO] \<and>
   map logs (invocationsOf downgradeEvents ''nodejs14.x'') =
     [[''hello'', ''Unknown application error occurred'', ''bye'']]"
  by code_simp

subsection \<open>A line that no matcher fits\<close>

text \<open>
  Claim C2, amended. For every event whose trimmed message no matcher of the cascade
  fits, under every runtime, the classified line has the level INFO, no request id and no
  metadata, and its message is the raw message with the white space at its two ends
  removed (\<^verbatim>\<open>event.message.trim()\<close>), otherwise unmodified.
\<close>

theorem unmatched_line:
  assumes "\<not> matchesSomeMatcher (js_trim (ev_message e)) runtime"
  shows "parseLogMetadata e runtime =
     \<lparr>log_id = ev_eventId e,
      log_message = js_trim (ev_message e),
      log_timestamp = ev_timestamp e,
      log_level = Some INFO,
      log_requestId = None,
      log_logStream = ev_logStreamName e,
      log_invocationMetadata = None\<rparr>"
proof -
  define m where "m = js_trim (ev_message e)"
  define l0 where "l0 =
     \<lparr>log_id = ev_eventId e, log_message = m, log_timestamp = ev_timestamp e,
      log_level = None, log_requestId = None, log_logStream = ev_logStreamName e,
      log_invocationMetadata = None\<rparr>"
  define spcParts where "spcParts = js_split CHR '' '' m"
  define tabParts where "tabParts = js_split CHR 0x09 m"
  have msg: "log_message l0 = m" and lvl: "log_level l0 = None" by (simp_all add: l0_def)
  from assms have
    n1: "\<not> js_startsWith m ''START RequestId: ''" and
    n2: "\<not> js_startsWith m ''END RequestId: ''" and
    n3: "\<not> js_startsWith m ''REPORT RequestId: ''" and
    n4: "\<not> js_startsWith m ''Unknown application error occurred''" and
    n5: "\<not> js_startsWith m ''module initialization error''" and
    n6: "\<not> (length spcParts \<ge> 3 \<and> spcParts ! 0 = ''RequestId:'' \<and> isRequestId (spcParts ! 1))" and
    n7: "\<not> (length spcParts \<ge> 3 \<and> isIsoTimestamp (spcParts ! 0) \<and> isRequestId (spcParts ! 1))" and
    n8: "\<not> (js_startsWith runtime ''nodejs'' \<and> length tabParts \<ge> 3 \<and>
             isIsoTimestamp (tabParts ! 0))" and
    n9: "\<not> (js_startsWith runtime ''python'' \<and> length tabParts \<ge> 4 \<and>
             isPythonTimestamp (tabParts ! 1) \<and> isRequestId (tabParts ! 2))" and
    n10: "\<not> (js_startsWith runtime ''python'' \<and> hasTraceback m)"
    unfolding matchesSomeMatcher_def Let_def m_def[symmetric] spcParts_def[symmetric]
      tabParts_def[symmetric]
    by blast+
  have a1: "parseLambdaSTART l0 = l0" using n1 by (simp add: parseLambdaSTART_def msg)
  have a2: "parseLambdaEND l0 = l0" using n2 by (simp add: parseLambdaEND_def msg)
  have a3: "parseLambdaREPORT l0 = l0" using n3 by (simp add: parseLambdaREPORT_def msg)
  have a4: "parseLambdaUnknownApplicationError l0 = l0"
    using n4 by (simp add: parseLambdaUnknownApplicationError_def msg)
  have a5: "parseLambdaModuleInitializationError l0 = l0"
    using n5 by (simp add: parseLambdaModuleInitializationError_def msg)
  have a6: "parseLambdaExited l0 spcParts = l0" by (simp only: parseLambdaExited_def n6 if_False)
  have a7: "parseLambdaTimeoutOrMessage l0 spcParts = l0"
    by (simp only: parseLambdaTimeoutOrMessage_def n7 if_False)
  have a8: "js_startsWith runtime ''nodejs'' \<Longrightarrow> parseLambdaNodeLog l0 tabParts = Inr l0"
    using n8 by (auto simp: parseLambdaNodeLog_def)
  have a9: "js_startsWith runtime ''python'' \<Longrightarrow> parseLambdaPythonLog l0 tabParts = l0"
    using n9 by (auto simp: parseLambdaPythonLog_def)
  have a10: "js_startsWith runtime ''python'' \<Longrightarrow> parseLambdaPythonTraceback l0 = l0"
    using n10 by (simp add: parseLambdaPythonTraceback_def msg)
  have t: "tryBlock l0 runtime = Inr l0"
    unfolding tryBlock_def Let_def a1 a2 a3 msg spcParts_def[symmetric] lvl
    by (simp add: a4 a5 a6 a7 msg tabParts_def[symmetric] lvl a8 a9 a10)
  show ?thesis
    unfolding parseLogMetadata_def m_def[symmetric] l0_def[symmetric] Let_def t
    by (simp add: lvl) (simp add: l0_def)
qed

theorem unmatched_line_witness:
  "\<not> matchesSomeMatcher (js_trim (ev_message paddedLine)) ''nodejs14.x'' \<and>
   parseLogMetadata paddedLine ''nodejs14.x'' =
     \<lparr>log_id = ''1'', log_message = ''hello'', log_timestamp = 1, log_level = Some INFO,
      log_requestId = None, log_logStream = ''s'', log_invocationMetadata = None\<rparr>"
proof -
  have h: "\<not> matchesSomeMatcher (js_trim (ev_message paddedLine)) ''nodejs14.x''"
    by code_simp
  have "\<lparr>log_id = ev_eventId paddedLine,
         log_message = js_trim (ev_message paddedLine),
         log_timestamp = ev_timestamp paddedLine,
         log_level = Some INFO,
         log_requestId = None,
         log_logStream = ev_logStreamName paddedLine,
         log_invocationMetadata = None\<rparr> =
        \<lparr>log_id = ''1'', log_message = ''hello'', log_timestamp = 1, log_level = Some INFO,
         log_requestId = None, log_logStream = ''s'', log_invocationMetadata = None\<rparr>"
    by code_simp
  with unmatched_line[OF h] h show ?thesis by simp
qed

text \<open>The claim as stated, with the raw message kept verbatim, fails on a line that ends
  with a newline: no matcher fits it, raw or trimmed, and the classified message has lost
  the newline.\<close>

theorem unmatched_line_not_verbatim:
  "\<not> matchesSomeMatcher (ev_message paddedLine) ''nodejs14.x'' \<and>
   \<not> matchesSomeMatcher (js_trim (ev_message paddedLine)) ''nodejs14.x'' \<and>
   ev_message paddedLine = ''hello\<newline>'' \<and>
   log_level (parseLogMetadata paddedLine ''nodejs14.x'') = Some INFO \<and>
   log_message (parseLogMetadata paddedLine ''nodejs14.x'') = ''hello'' \<and>
   log_message (parseLogMetadata paddedLine ''nodejs14.x'') \<noteq> ev_message paddedLine"
  by code_simp

subsection \<open>The matcher of the first runtime family\<close>

text \<open>
  Claim C3 says that under a runtime of the first family a line still unclassified, whose
  tab-separated tokens are at least three with an ISO timestamp first, gets the second
  token as request id when it is a 36-character id, and the level of the third token with
  the rest as message when that token is INFO, WARN or ERROR. \<^verbatim>\<open>parseLambdaNodeLog\<close>
  throws on every such line, at its assignment to the undeclared \<^verbatim>\<open>requestId\<close>;
  \<^verbatim>\<open>parseLogMetadata\<close> catches the exception and the line gets the default: on the line
  below, whose third token is ERROR, the level is INFO, the request id is unset and the
  message is the whole line.
\<close>

theorem node_line_throws:
  "(let tabParts = js_split CHR 0x09 (js_trim (ev_message nodeErrorLine))
    in length tabParts \<ge> 3 \<and> isIsoTimestamp (tabParts ! 0) \<and> isRequestId (tabParts ! 1) \<and>
       tabParts ! 2 = ''ERROR'' \<and> js_join tab (drop 3 tabParts) = ''error hello'') \<and>
   tryBlock
     \<lparr>log_id = ''1'', log_message = ev_message nodeErrorLine, log_timestamp = 1,
      log_level = None, log_requestId = None, log_logStream = ''s'',
      log_invocationMetadata = None\<rparr> ''nodejs14.x'' =
     Inl (ReferenceError ''requestId'',
          \<lparr>log_id = ''1'', log_message = ev_message nodeErrorLine, log_timestamp = 1,
           log_level = None, log_requestId = None, log_logStream = ''s'',
           log_invocationMetadata = None\<rparr>) \<and>
   parseLogMetadata nodeErrorLine ''nodejs14.x'' =
     \<lparr>log_id = ''1'', log_message = ev_message nodeErrorLine, log_timestamp = 1,
      log_level = Some INFO, log_requestId = None, log_logStream = ''s'',
      log_invocationMetadata = None\<rparr>"
  by code_simp

subsection \<open>The matchers of the second runtime family\<close>

text \<open>
  Claim C4 says that a line which the bracketed-tag matcher fits has the level of its tag
  and is not given to the traceback check. \<^verbatim>\<open>parseLambdaPythonLog\<close> returns nothing, so
  the chain \<^verbatim>\<open>parseLambdaPythonLog(log, tabParts) || parseLambdaPythonTraceback(log)\<close>
  always goes on to the traceback check, on the rebuilt message: the line below has the
  tag \<^verbatim>\<open>[INFO]\<close>, fits the tag matcher, and is classified ERROR with the failure flag.
\<close>

theorem python_tag_overridden:
  "(let tabParts = js_split CHR 0x09 (js_trim (ev_message pythonTracebackLine))
    in length tabParts \<ge> 4 \<and> tabParts ! 0 = ''[INFO]'' \<and> isPythonTimestamp (tabParts ! 1) \<and>
       isRequestId (tabParts ! 2)) \<and>
   parseLogMetadata pythonTracebackLine ''python3.8'' =
     \<lparr>log_id = ''1'',
      log_message = ''[INFO] failed\<newline>Traceback (most recent call last):\<newline>  File main.py'',
      log_timestamp = 1,
      log_level = Some ERROR,
      log_requestId = Some ''cc81b998-c7de-46fb-a9ef-3423ccdcda98'',
      log_logStream = ''s'',
      log_invocationMetadata = Some (emptyMetadata\<lparr>md_isFailed := Some True\<rparr>)\<rparr>"
  by code_simp

subsection \<open>Order of the normalised events\<close>

text \<open>
  Claim C5 says that the normalised events are in the order of the pair (log stream name,
  event identifier). \<^verbatim>\<open>sortLogs\<close>, whose comment says the same, sorts by the one string
  \<^verbatim>\<open>`${log.logStreamName}-${log.eventId}`\<close>: where a stream name is a prefix of another,
  the identifier of the shorter is compared with the rest of the longer. The two events
  below come in the order of the pair and leave with the greater stream name first.
  (That the normalised events have the identifiers of the input, each once, and that
  their sort keys ascend, are the lemmas \<open>normalize_identifiers\<close> and
  \<open>normalize_sorted\<close>.)
\<close>

theorem sort_key_not_composite:
  "map (\<lambda>e. (ev_logStreamName e, ev_eventId e)) (normalize prefixStreams) =
     [(''app-1'', ''37''), (''app'', ''36'')] \<and>
   map sortKey (normalize prefixStreams) = [''app-1-37'', ''app-36''] \<and>
   ''app'' < ''app-1''"
  by code_simp

subsection \<open>Completeness of the grouping\<close>

text \<open>
  Claim C6, amended. The grouper pushes the message of the classified line: the message
  of the normalised event as \<^verbatim>\<open>parseLogMetadata\<close> leaves it. For every batch of
  classified lines, the messages of the pushed invocations, read in the order of the
  pushes, are exactly the messages of the lines in their order; the sort only permutes
  the invocations, so the output holds the same messages with the same multiplicities,
  and the lengths of the \<open>logs\<close> lists of the output add up to the number of lines. For
  the pipeline, for every collection of raw events and every runtime: the messages of the
  output are the classified messages of the normalised events, each once, and their
  number is the number of normalised events. For an event that the matcher of the first
  runtime family does not accept, the classified message is the raw message trimmed,
  and rewritten where the exited-early, the timestamp, id and message or the
  bracketed-tag matcher fits (\<open>classifiedMessage\<close>); so for a batch without a line that
  matcher accepts, the messages of the output are these, each once.
\<close>

theorem groupLogs_complete:
  "concat (map logs (flushedInvocations ls)) = map log_message ls \<and>
   mset (concat (map logs (groupLogs ls))) = mset (map log_message ls) \<and>
   sum_list (map (\<lambda>i. length (logs i)) (groupLogs ls)) = length ls \<and>
   mset (concat (map logs (invocationsOf events runtime))) =
     mset (map (\<lambda>e. log_message (parseLogMetadata e runtime)) (normalize events)) \<and>
   sum_list (map (\<lambda>i. length (logs i)) (invocationsOf events runtime)) =
     length (normalize events) \<and>
   (\<not> nodeMatcherFits (js_trim (ev_message e)) runtime \<longrightarrow>
      log_message (parseLogMetadata e runtime) = classifiedMessage (ev_message e) runtime) \<and>
   ((\<forall>e \<in> set (normalize events). \<not> nodeMatcherFits (js_trim (ev_message e)) runtime) \<longrightarrow>
      mset (concat (map logs (invocationsOf events runtime))) =
        mset (map (\<lambda>e. classifiedMessage (ev_message e) runtime) (normalize events)))"
proof -
  have c: "concat (map logs (flushedInvocations ls)) = map log_message ls" for ls
    by (rule concat_flushedInvocations)
  have m: "mset (concat (map logs (groupLogs ls))) = mset (map log_message ls)" for ls
  proof -
    have "mset (concat (map logs (groupLogs ls))) =
          (\<Sum>i\<in>#mset (groupLogs ls). mset (logs i))"
      by (simp add: mset_concat comp_def sum_mset_sum_list[symmetric] del: sum_mset_sum_list)
    also have "\<dots> = (\<Sum>i\<in>#mset (flushedInvocations ls). mset (logs i))"
      by (simp only: mset_groupLogs)
    also have "\<dots> = mset (concat (map logs (flushedInvocations ls)))"
      by (simp add: mset_concat comp_def sum_mset_sum_list[symmetric] del: sum_mset_sum_list)
    finally show ?thesis by (simp only: c)
  qed
  have n: "sum_list (map (\<lambda>i. length (logs i)) (groupLogs ls)) = length ls" for ls
  proof -
    have "sum_list (map (\<lambda>i. length (logs i)) (groupLogs ls)) =
          length (concat (map logs (groupLogs ls)))"
      by (simp add: length_concat comp_def)
    also have "\<dots> = size (mset (concat (map logs (groupLogs ls))))" by simp
    also have "\<dots> = length ls" by (simp only: m) simp
    finally show ?thesis .
  qed
  have p: "sum_list (map (\<lambda>i. length (logs i)) (invocationsOf events runtime)) =
        length (normalize events)"
    by (simp add: invocationsOf_def n classify_def)
  have q: "mset (concat (map logs (invocationsOf events runtime))) =
        mset (map (\<lambda>e. log_message (parseLogMetadata e runtime)) (normalize events))"
    by (simp only: invocationsOf_def m classify_def) (simp add: comp_def)
  have k: "mset (concat (map logs (invocationsOf events runtime))) =
        mset (map (\<lambda>e. classifiedMessage (ev_message e) runtime) (normalize events))"
    by (simp only: q log_message_parseLogMetadata)
  have b: "log_message (parseLogMetadata e runtime) = classifiedMessage (ev_message e) runtime"
    by (rule log_message_parseLogMetadata)
  from c m n p q k b show ?thesis by simp
qed

text \<open>The two lines of \<open>rewrittenEvents\<close> under a runtime of the first family: its matcher
  accepts neither, and the output is one invocation with the trimmed message of the first
  and the rewritten message of the second.\<close>

theorem groupLogs_complete_witness:
  "list_all (\<lambda>e. \<not> nodeMatcherFits (js_trim (ev_message e)) ''nodejs14.x'')
     (normalize rewrittenEvents) \<and>
   \<not> nodeMatcherFits (js_trim (ev_message (rewrittenEvents ! 1))) ''nodejs14.x'' \<and>
   log_message (parseLogMetadata (rewrittenEvents ! 1) ''nodejs14.x'') =
     ''Task timed out after 6.00 seconds'' \<and>
   map logs (invocationsOf rewrittenEvents ''nodejs14.x'') =
     [[''hello'', ''Task timed out after 6.00 seconds'']] \<and>
   mset (concat (map logs (invocationsOf rewrittenEvents ''nodejs14.x''))) =
     mset [''hello'', ''Task timed out after 6.00 seconds''] \<and>
   sum_list (map (\<lambda>i. length (logs i)) (invocationsOf rewrittenEvents ''nodejs14.x'')) = 2"
proof -
  have h: "list_all (\<lambda>e. \<not> nodeMatcherFits (js_trim (ev_message e)) ''nodejs14.x'')
     (normalize rewrittenEvents)"
    by code_simp
  have h1: "\<not> nodeMatcherFits (js_trim (ev_message (rewrittenEvents ! 1))) ''nodejs14.x''"
    by code_simp
  have a: "map (\<lambda>e. classifiedMessage (ev_message e) ''nodejs14.x'') (normalize rewrittenEvents) =
           [''hello'', ''Task timed out after 6.00 seconds'']"
    by code_simp
  have a1: "classifiedMessage (ev_message (rewrittenEvents ! 1)) ''nodejs14.x'' =
           ''Task timed out after 6.00 seconds''"
    by code_simp
  have b: "length (normalize rewrittenEvents) = 2" by code_simp
  have d: "map logs (invocationsOf rewrittenEvents ''nodejs14.x'') =
     [[''hello'', ''Task timed out after 6.00 seconds'']]"
    by code_simp
  note gc = groupLogs_complete[of "[]" rewrittenEvents "''nodejs14.x''" "rewrittenEvents ! 1"]
  from h have h': "\<forall>e \<in> set (normalize rewrittenEvents).
      \<not> nodeMatcherFits (js_trim (ev_message e)) ''nodejs14.x''"
    by (simp only: list_all_iff)
  from gc h' have "mset (concat (map logs (invocationsOf rewrittenEvents ''nodejs14.x''))) =
     mset (map (\<lambda>e. classifiedMessage (ev_message e) ''nodejs14.x'')
            (normalize rewrittenEvents))"
    by blast
  then have q: "mset (concat (map logs (invocationsOf rewrittenEvents ''nodejs14.x''))) =
     mset [''hello'', ''Task timed out after 6.00 seconds'']"
    by (simp only: a)
  from gc have "sum_list (map (\<lambda>i. length (logs i))
       (invocationsOf rewrittenEvents ''nodejs14.x'')) = length (normalize rewrittenEvents)"
    by blast
  then have p: "sum_list (map (\<lambda>i. length (logs i))
       (invocationsOf rewrittenEvents ''nodejs14.x'')) = 2"
    by (simp only: b)
  from gc h1 have "log_message (parseLogMetadata (rewrittenEvents ! 1) ''nodejs14.x'') =
     classifiedMessage (ev_message (rewrittenEvents ! 1)) ''nodejs14.x''"
    by blast
  then have r: "log_message (parseLogMetadata (rewrittenEvents ! 1) ''nodejs14.x'') =
     ''Task timed out after 6.00 seconds''"
    by (simp only: a1)
  from h h1 r d q p show ?thesis by blast
qed

text \<open>The claim as stated, with the messages of the normalised events themselves in the
  \<open>logs\<close> lists, fails on the same two lines: neither raw message is in the output.\<close>

theorem raw_message_not_in_logs:
  "map ev_message (normalize rewrittenEvents) =
     [''hello\<newline>'',
      ''2022-01-01T00:00:00.000Z abcdefab-abcd-abcd-abcd-abcdefabcdef Task timed out after 6.00 seconds\<newline>''] \<and>
   map logs (invocationsOf rewrittenEvents ''nodejs14.x'') =
     [[''hello'', ''Task timed out after 6.00 seconds'']] \<and>
   ''hello\<newline>'' \<notin> set (concat (map logs (invocationsOf rewrittenEvents ''nodejs14.x''))) \<and>
   ''2022-01-01T00:00:00.000Z abcdefab-abcd-abcd-abcd-abcdefabcdef Task timed out after 6.00 seconds\<newline>''
     \<notin> set (concat (map logs (invocationsOf rewrittenEvents ''nodejs14.x'')))"
  by code_simp

subsection \<open>Order of the output\<close>

text \<open>
  Claim C7. For every batch, the output is sorted by first-line time, descending: of any
  two entries, so of any two consecutive ones, the earlier has a first-line time and it
  is at least the later's. The sort is stable: the entries of the output with a given
  first-line time are in the order in which they were pushed.
\<close>

theorem groupLogs_ordering:
  "sorted_wrt (\<lambda>a b. \<exists>ta tb. firstLineTime a = Some ta \<and> firstLineTime b = Some tb \<and> tb \<le> ta)
     (groupLogs ls) \<and>
   (\<forall>t. filter (\<lambda>i. firstLineTime i = Some t) (groupLogs ls) =
        filter (\<lambda>i. firstLineTime i = Some t) (flushedInvocations ls))"
proof
  have fl: "list_all flushable (groupLogs ls)" by (rule groupLogs_flushable)
  have "sorted (map timeKey (groupLogs ls))"
    by (simp add: groupLogs_sort_key)
  then have "sorted_wrt (\<lambda>a b. timeKey a \<le> timeKey b) (groupLogs ls)"
    by (simp add: sorted_map)
  then show "sorted_wrt (\<lambda>a b. \<exists>ta tb. firstLineTime a = Some ta \<and> firstLineTime b = Some tb \<and> tb \<le> ta)
     (groupLogs ls)"
  proof (rule sorted_wrt_mono_rel[rotated])
    fix a b
    assume a: "a \<in> set (groupLogs ls)" and b: "b \<in> set (groupLogs ls)"
      and le: "timeKey a \<le> timeKey b"
    from fl a obtain ta where ta: "firstLineTime a = Some ta"
      by (auto simp: list_all_iff flushable_def)
    from fl b obtain tb where tb: "firstLineTime b = Some tb"
      by (auto simp: list_all_iff flushable_def)
    from le ta tb have "tb \<le> ta" by (simp add: timeKey_def)
    with ta tb show "\<exists>ta tb. firstLineTime a = Some ta \<and> firstLineTime b = Some tb \<and> tb \<le> ta"
      by simp
  qed
next
  show "\<forall>t. filter (\<lambda>i. firstLineTime i = Some t) (groupLogs ls) =
        filter (\<lambda>i. firstLineTime i = Some t) (flushedInvocations ls)"
  proof
    fix t
    have eq: "\<And>xs. list_all flushable xs \<Longrightarrow>
        filter (\<lambda>i. firstLineTime i = Some t) xs = filter (\<lambda>i. timeKey i = - t) xs"
      by (rule filter_cong) (auto simp: list_all_iff flushable_def timeKey_def)
    show "filter (\<lambda>i. firstLineTime i = Some t) (groupLogs ls) =
        filter (\<lambda>i. firstLineTime i = Some t) (flushedInvocations ls)"
      by (simp only: eq[OF flushedInvocations_flushable] eq[OF groupLogs_flushable])
         (simp add: groupLogs_sort_key sort_key_stable)
  qed
qed

text \<open>Three invocations pushed with the times 5, 9 and 5: the one of time 9 comes first,
  the two of time 5 keep their order.\<close>

theorem groupLogs_ordering_witness:
  "map requestId (flushedInvocations threeStreams) = [None, None, None] \<and>
   map logs (flushedInvocations threeStreams) = [[''first''], [''second''], [''third'']] \<and>
   map logs (groupLogs threeStreams) = [[''second''], [''first''], [''third'']] \<and>
   sorted_wrt (\<lambda>a b. \<exists>ta tb. firstLineTime a = Some ta \<and> firstLineTime b = Some tb \<and> tb \<le> ta)
     (groupLogs threeStreams)"
proof -
  have "map logs (flushedInvocations threeStreams) = [[''first''], [''second''], [''third'']]"
    by code_simp
  moreover have "map logs (groupLogs threeStreams) = [[''second''], [''first''], [''third'']]"
    by code_simp
  moreover have "map requestId (flushedInvocations threeStreams) = [None, None, None]"
    by code_simp
  ultimately show ?thesis using groupLogs_ordering[of threeStreams] by simp
qed

subsection \<open>The timestamp, id and message pattern\<close>

text \<open>
  Claim C8. Let the trimmed message of an event split on single spaces into at least
  three tokens, the first an ISO-8601 timestamp and the second a 36-character id. Then,
  under every runtime, the classified line has the second token as request id and the
  remaining tokens, joined by spaces, as message; its level is ERROR and its failure flag
  is set when that message starts with \<^verbatim>\<open>Task timed out after\<close>, and its level is INFO and
  the flag is false otherwise.
\<close>

theorem timeout_or_message:
  assumes "length (js_split CHR '' '' (js_trim (ev_message e))) \<ge> 3"
    and "isIsoTimestamp (js_split CHR '' '' (js_trim (ev_message e)) ! 0)"
    and "isRequestId (js_split CHR '' '' (js_trim (ev_message e)) ! 1)"
  shows "parseLogMetadata e runtime =
     (let spcParts = js_split CHR '' '' (js_trim (ev_message e));
          rest = js_join '' '' (drop 2 spcParts);
          isFailed = js_startsWith rest ''Task timed out after''
      in \<lparr>log_id = ev_eventId e,
          log_message = rest,
          log_timestamp = ev_timestamp e,
          log_level = Some (if isFailed then ERROR else INFO),
          log_requestId = Some (spcParts ! 1),
          log_logStream = ev_logStreamName e,
          log_invocationMetadata = Some (emptyMetadata\<lparr>md_isFailed := Some isFailed\<rparr>)\<rparr>)"
proof -
  define m where "m = js_trim (ev_message e)"
  define parts where "parts = js_split CHR '' '' m"
  from assms(2) obtain d r where m: "m = d # r" and d: "isDigit d"
    using first_token_digit[of "CHR '' ''" m] by (auto simp: m_def)
  have np: "\<And>p. p \<noteq> [] \<Longrightarrow> \<not> isDigit (hd p) \<Longrightarrow> \<not> js_startsWith m p"
    using digit_not_prefix[OF d] m by simp
  have s1: "\<not> js_startsWith m ''START RequestId: ''" by (rule np) (simp_all add: isDigit_def)
  have s2: "\<not> js_startsWith m ''END RequestId: ''" by (rule np) (simp_all add: isDigit_def)
  have s3: "\<not> js_startsWith m ''REPORT RequestId: ''" by (rule np) (simp_all add: isDigit_def)
  have s4: "\<not> js_startsWith m ''Unknown application error occurred''"
    by (rule np) (simp_all add: isDigit_def)
  have s5: "\<not> js_startsWith m ''module initialization error''"
    by (rule np) (simp_all add: isDigit_def)
  have s6: "parts ! 0 \<noteq> ''RequestId:''"
    using assms(2) by (auto simp: parts_def m_def isIsoTimestamp_def matches_def secondsPattern_def)
  show ?thesis
    using assms s1 s2 s3 s4 s5 s6
    unfolding parseLogMetadata_def tryBlock_def m_def[symmetric] parts_def[symmetric]
    by (simp add: parseLambdaSTART_def parseLambdaEND_def parseLambdaREPORT_def
        parseLambdaUnknownApplicationError_def parseLambdaModuleInitializationError_def
        parseLambdaExited_def parseLambdaTimeoutOrMessage_def Let_def orEmptyMetadata_def
        emptyMetadata_def m_def[symmetric] parts_def[symmetric])
qed

text \<open>The line \<^verbatim>\<open>2022-01-01T00:00:00.000Z abcdefab-abcd-abcd-abcd-abcdefabcdef Task timed
  out after 6.00 seconds\<close>: level ERROR, failure flag set, message
  \<^verbatim>\<open>Task timed out after 6.00 seconds\<close>.\<close>

theorem timeout_or_message_witness:
  "length (js_split CHR '' '' (js_trim (ev_message timeoutLine))) \<ge> 3 \<and>
   isIsoTimestamp (js_split CHR '' '' (js_trim (ev_message timeoutLine)) ! 0) \<and>
   isRequestId (js_split CHR '' '' (js_trim (ev_message timeoutLine)) ! 1) \<and>
   parseLogMetadata timeoutLine ''nodejs14.x'' =
     \<lparr>log_id = ''1'',
      log_message = ''Task timed out after 6.00 seconds'',
      log_timestamp = 1,
      log_level = Some ERROR,
      log_requestId = Some ''abcdefab-abcd-abcd-abcd-abcdefabcdef'',
      log_logStream = ''s'',
      log_invocationMetadata = Some (emptyMetadata\<lparr>md_isFailed := Some True\<rparr>)\<rparr>"
proof -
  have a: "length (js_split CHR '' '' (js_trim (ev_message timeoutLine))) \<ge> 3" by code_simp
  have b: "isIsoTimestamp (js_split CHR '' '' (js_trim (ev_message timeoutLine)) ! 0)"
    by code_simp
  have c: "isRequestId (js_split CHR '' '' (js_trim (ev_message timeoutLine)) ! 1)"
    by code_simp
  have v: "(let spcParts = js_split CHR '' '' (js_trim (ev_message timeoutLine));
          rest = js_join '' '' (drop 2 spcParts);
          isFailed = js_startsWith rest ''Task timed out after''
      in \<lparr>log_id = ev_eventId timeoutLine,
          log_message = rest,
          log_timestamp = ev_timestamp timeoutLine,
          log_level = Some (if isFailed then ERROR else INFO),
          log_requestId = Some (spcParts ! 1),
          log_logStream = ev_logStreamName timeoutLine,
          log_invocationMetadata = Some (emptyMetadata\<lparr>md_isFailed := Some isFailed\<rparr>)\<rparr>) =
     \<lparr>log_id = ''1'',
      log_message = ''Task timed out after 6.00 seconds'',
      log_timestamp = 1,
      log_level = Some ERROR,
      log_requestId = Some ''abcdefab-abcd-abcd-abcd-abcdefabcdef'',
      log_logStream = ''s'',
      log_invocationMetadata = Some (emptyMetadata\<lparr>md_isFailed := Some True\<rparr>)\<rparr>"
    by code_simp
  from timeout_or_message[OF a b c, of "''nodejs14.x''"] v a b c show ?thesis by simp
qed

subsection \<open>A REPORT line closes the invocation\<close>



subsection \<open>No empty invocation\<close>

text \<open>
  Claim C10. Every invocation of the output has a non-empty \<open>logs\<close> list, for every
  input: a push on a change of stream, before a START and at the end of the input happens
  only for a current invocation that holds a message, and the REPORT branch appends its
  message before it pushes.
\<close>

theorem no_empty_invocation: "\<forall>i \<in> set (groupLogs ls). logs i \<noteq> []"
  using groupLogs_flushable[of ls] by (simp add: list_all_iff flushable_def)

theorem no_empty_invocation_witness:
  "length (groupLogs twoStreams) = 2 \<and> logs (groupLogs twoStreams ! 0) \<noteq> [] \<and>
   logs (groupLogs twoStreams ! 1) \<noteq> []"
proof -
  have n: "length (groupLogs twoStreams) = 2" by code_simp
  then have "groupLogs twoStreams ! 0 \<in> set (groupLogs twoStreams)"
    and "groupLogs twoStreams ! 1 \<in> set (groupLogs twoStreams)"
    by simp_all
  with no_empty_invocation[of twoStreams] n show ?thesis by blast
qed

end
